theory Spec2Isabelle
  imports Complex_Main "HOL-Library.Sublist" "HOL-Library.Multiset"
begin

section \<open>Python values used by the image recognition module\<close>

subsection \<open>Strings\<close>

text \<open>
  A Python \<open>str\<close> is a sequence of Unicode code points, modelled as a list of naturals.
  The constants of the module are written with \<open>u\<close>, which reads an ASCII literal, and
  with explicit code points for the accented letters of the French texts
  (\<open>233\<close> is e-acute, \<open>232\<close> e-grave, \<open>224\<close> a-grave, \<open>251\<close> u-circumflex,
  \<open>244\<close> o-circumflex).

  The test \<open>k in s\<close> on two strings is the contiguous-substring test \<open>sublist k s\<close>.
\<close>

type_synonym ustring = "nat list"

definition u :: "string \<Rightarrow> ustring" where
  "u s = map of_char s"

text \<open>
  \<open>str.lower()\<close> belongs to the Python runtime, not to the module. Every function of the
  module that calls it takes it as the parameter \<open>lower\<close>. What the properties below need
  of it is its behaviour on the Latin-1 range (code points below 256), where it is the
  character-wise map \<open>latin1_lower\<close>: \<open>A\<close>-\<open>Z\<close> and the accented capitals
  \<open>192\<close>-\<open>222\<close> (the multiplication sign \<open>215\<close> apart) move up by 32, everything
  else stays.
\<close>

type_synonym lower_fn = "ustring \<Rightarrow> ustring"

definition latin1_lower_cp :: "nat \<Rightarrow> nat" where
  "latin1_lower_cp c =
     (if (65 \<le> c \<and> c \<le> 90) \<or> (192 \<le> c \<and> c \<le> 222 \<and> c \<noteq> 215) then c + 32 else c)"

definition latin1_lower :: lower_fn where
  "latin1_lower s = map latin1_lower_cp s"

definition lower_on_latin1 :: "lower_fn \<Rightarrow> bool" where
  "lower_on_latin1 lower = (\<forall>s. (\<forall>c\<in>set s. c < 256) \<longrightarrow> lower s = latin1_lower s)"

text \<open>\<open>str(n)\<close> for an integer: decimal digits, with a minus sign when negative.\<close>

fun digits :: "nat \<Rightarrow> ustring" where
  "digits n = (if n < 10 then [48 + n] else digits (n div 10) @ [48 + n mod 10])"

declare digits.simps [simp del]

definition str_int :: "int \<Rightarrow> ustring" where
  "str_int i = (if i < 0 then 45 # digits (nat (- i)) else digits (nat i))"

subsection \<open>Numbers\<close>

text \<open>
  Scores, confidences and box coordinates are floats that the data model of the
  specification keeps finite (scores and confidences in \<open>[0,1]\<close>); they are modelled by
  their real values. \<open>float(x)\<close> converts a single-precision value to double precision
  without changing it, so it is the identity; a comparison carried out in double precision
  is the comparison of the real values; rounding in the products and quotients is left
  out. \<open>int(x)\<close> truncates towards zero.
\<close>

definition py_int :: "real \<Rightarrow> int" where
  "py_int x = (if x < 0 then \<lceil>x\<rceil> else \<lfloor>x\<rfloor>)"

text \<open>
  \<open>astype('int')\<close> converts to a signed 64-bit integer: the truncated value when it
  fits. For a value that does not fit, the conversion is left to the platform by NumPy;
  the model takes the least 64-bit integer, which is what the conversion instruction of
  x86-64 delivers.
\<close>

definition astype_int :: "real \<Rightarrow> int" where
  "astype_int x =
     (let i = py_int x
      in if - (2 ^ 63) \<le> i \<and> i < 2 ^ 63 then i else - (2 ^ 63))"

subsection \<open>Dictionaries and sorting\<close>

text \<open>
  A \<open>dict\<close> whose iteration order is observed is an association list in insertion order
  with distinct keys. Storing under a key that is present replaces the value in place;
  a new key goes to the end.
\<close>

type_synonym ('k, 'v) dict = "('k \<times> 'v) list"

fun dict_set :: "('k, 'v) dict \<Rightarrow> 'k \<Rightarrow> 'v \<Rightarrow> ('k, 'v) dict" where
  "dict_set [] k v = [(k, v)]"
| "dict_set ((k', v') # d) k v = (if k' = k then (k', v) # d else (k', v') # dict_set d k v)"

definition dict_get :: "('k, 'v) dict \<Rightarrow> 'k \<Rightarrow> 'v option" where
  "dict_get d k = map_of d k"

text \<open>
  \<open>sorted(xs, key=f, reverse=True)\<close>: descending in the key and stable (elements with
  equal keys keep their order), which is the stable ascending sort on the negated key.
\<close>

definition sorted_desc :: "('a \<Rightarrow> real) \<Rightarrow> 'a list \<Rightarrow> 'a list" where
  "sorted_desc key xs = sort_key (\<lambda>x. - key x) xs"

text \<open>\<open>max(xs, key=f)\<close> on a non-empty list: the first element with the greatest key.\<close>

fun max_by :: "('a \<Rightarrow> real) \<Rightarrow> 'a \<Rightarrow> 'a list \<Rightarrow> 'a" where
  "max_by key best [] = best"
| "max_by key best (x # xs) = max_by key (if key x > key best then x else best) xs"

section \<open>The diagnosis mapper\<close>

subsection \<open>Keyword tables of the engine\<close>

definition anomaly_keywords :: "ustring list" where
  "anomaly_keywords =
   [u ''damage'', u ''damaged'', u ''broken'', u ''crack'', u ''cracked'', u ''dent'',
    u ''dented'', u ''scratch'', u ''scratched'', u ''rust'', u ''rusty'', u ''corrosion'',
    u ''leak'', u ''leaking'', u ''worn'', u ''wear'', u ''tear'', u ''bent'', u ''burnt'',
    u ''burned'', u ''melted'', u ''flat'', u ''accident'', u ''collision'', u ''problem'',
    u ''issue'', u ''fault'', u ''error'', u ''warning'', u ''dommage'',
    u ''endommag'' @ [233], u ''cass'' @ [233], u ''fissure'', u ''fissur'' @ [233],
    u ''bossel'' @ [233], u ''bosse'', u ''rayure'', u ''ray'' @ [233], u ''rouille'',
    u ''rouill'' @ [233], u ''corrosion'', u ''fuite'', u ''us'' @ [233], u ''usure'',
    u ''d'' @ [233] @ u ''chirure'', u ''pli'' @ [233], u ''br'' @ [251] @ u ''l'' @ [233],
    u ''fondu'', u ''d'' @ [233] @ u ''gonfl'' @ [233], [224] @ u '' plat'', u ''accident'',
    u ''collision'', u ''probl'' @ [232] @ u ''me'', u ''panne'', u ''d'' @ [233] @ u ''faut'',
    u ''erreur'', u ''alerte'']"

definition car_keywords :: "ustring list" where
  "car_keywords =
   [u ''car'', u ''automobile'', u ''vehicle'', u ''motor'', u ''engine'', u ''wheel'',
    u ''tire'', u ''brake'', u ''suspension'', u ''transmission'', u ''exhaust'',
    u ''battery'', u ''headlight'', u ''taillight'', u ''windshield'', u ''hood'', u ''trunk'',
    u ''bumper'', u ''door'', u ''dashboard'', u ''steering'', u ''airbag'', u ''seat'',
    u ''seatbelt'', u ''mirror'', u ''wiper'', u ''radiator'', u ''voiture'', u ''automobile'',
    u ''v'' @ [233] @ u ''hicule'', u ''moteur'', u ''roue'', u ''pneu'', u ''frein'',
    u ''suspension'', u ''transmission'', [233] @ u ''chappement'', u ''batterie'',
    u ''phare'', u ''feu'', u ''pare-brise'', u ''capot'', u ''coffre'', u ''pare-choc'',
    u ''porti'' @ [232] @ u ''re'', u ''tableau de bord'', u ''volant'', u ''airbag'',
    u ''si'' @ [232] @ u ''ge'', u ''ceinture'', u ''r'' @ [233] @ u ''troviseur'',
    u ''essuie-glace'', u ''radiateur'']"

subsection \<open>Anomalies and car-relatedness\<close>

record anomaly =
  anomaly_type :: ustring
  anomaly_label :: ustring
  anomaly_score :: real

text \<open>
  The two nested loops of \<open>_detect_anomalies\<close>, keyword outermost. The inner loop
  appends, for one keyword, an entry for every item of the label dictionary whose
  lower-cased label contains the keyword.
\<close>

definition keyword_matches :: "lower_fn \<Rightarrow> (ustring, real) dict \<Rightarrow> ustring \<Rightarrow> anomaly list" where
  "keyword_matches lower labels keyword =
     map (\<lambda>(label, score).
            \<lparr>anomaly_type = keyword, anomaly_label = label, anomaly_score = score\<rparr>)
         (filter (\<lambda>(label, score). sublist keyword (lower label)) labels)"

definition anomaly_matches :: "lower_fn \<Rightarrow> ustring list \<Rightarrow> (ustring, real) dict \<Rightarrow> anomaly list" where
  "anomaly_matches lower keywords labels =
     concat (map (keyword_matches lower labels) keywords)"

definition detect_anomalies :: "lower_fn \<Rightarrow> (ustring, real) dict \<Rightarrow> anomaly list" where
  "detect_anomalies lower labels =
     sorted_desc anomaly_score (anomaly_matches lower anomaly_keywords labels)"

text \<open>
  \<open>_is_car_related\<close> returns \<open>True\<close> at the first keyword found in a lower-cased key,
  and \<open>False\<close> when both loops run to their end.
\<close>

definition keyword_hit :: "lower_fn \<Rightarrow> ustring list \<Rightarrow> ustring list \<Rightarrow> bool" where
  "keyword_hit lower keywords keys =
     list_ex (\<lambda>keyword. list_ex (\<lambda>label. sublist keyword (lower label)) keys) keywords"

definition is_car_related :: "lower_fn \<Rightarrow> (ustring, real) dict \<Rightarrow> bool" where
  "is_car_related lower labels = keyword_hit lower car_keywords (map fst labels)"

subsection \<open>Diagnoses from detections\<close>

record bounding_box =
  x_min :: int
  y_min :: int
  x_max :: int
  y_max :: int

record detection =
  det_class :: ustring
  det_confidence :: real
  det_bounding_box :: bounding_box

definition msg_nothing_recognized :: ustring where
  "msg_nothing_recognized = u ''Aucun objet automobile reconnu dans l'image''"

definition msg_brake_advice :: ustring where
  "msg_brake_advice =
     u ''V'' @ [233] @ u ''rifiez l'' @ [39, 233] @ u ''tat des plaquettes et des disques de frein''"

definition msg_no_specific_issue :: ustring where
  "msg_no_specific_issue =
     u ''Composants automobiles d'' @ [233] @ u ''tect'' @ [233] @ u ''s, mais aucun probl''
       @ [232] @ u ''me sp'' @ [233] @ u ''cifique identifi'' @ [233]"

definition component_diagnoses :: "(ustring, ustring) dict" where
  "component_diagnoses =
   [(u ''frein'', msg_brake_advice),
    (u ''pneu'', u ''Inspectez l'usure et la pression des pneus''),
    (u ''huile'', u ''Contr'' @ [244] @ u ''lez le niveau et la qualit'' @ [233] @ u '' de l'huile''),
    (u ''moteur'', u ''Examinez l'' @ [39, 233] @ u ''tat g'' @ [233] @ u ''n'' @ [233] @ u ''ral du moteur''),
    (u ''batterie'', u ''V'' @ [233] @ u ''rifiez les connections et la charge de la batterie''),
    (u ''phare'', u ''Assurez-vous que tous les phares fonctionnent correctement'')]"

definition msg_corrosion :: ustring where
  "msg_corrosion =
     u ''Pr'' @ [233] @ u ''sence de corrosion d'' @ [233] @ u ''tect'' @ [233] @ u ''e - v''
       @ [233] @ u ''rifiez l'' @ [39, 233] @ u ''tendue des dommages''"

definition msg_leak :: ustring where
  "msg_leak =
     u ''Fuite de liquide d'' @ [233] @ u ''tect'' @ [233] @ u ''e - v'' @ [233]
       @ u ''rifiez le type et la source''"

definition msg_crack :: ustring where
  "msg_crack =
     u ''Fissure d'' @ [233] @ u ''tect'' @ [233] @ u ''e - inspectez la gravit'' @ [233]
       @ u '' et l'emplacement''"

definition generate_diagnoses :: "lower_fn \<Rightarrow> detection list \<Rightarrow> ustring list" where
  "generate_diagnoses lower detections =
     (let detected_classes = map (\<lambda>d. lower (det_class d)) detections in
      if detected_classes = [] then [msg_nothing_recognized]
      else
        let d1 = map snd (filter (\<lambda>(component, diagnosis).
                     list_ex (\<lambda>cls. sublist component cls) detected_classes) component_diagnoses);
            d2 = d1 @ (if u ''rouille'' \<in> set detected_classes \<or> u ''corrosion'' \<in> set detected_classes
                       then [msg_corrosion] else []);
            d3 = d2 @ (if u ''fuite'' \<in> set detected_classes \<or> u ''liquide'' \<in> set detected_classes
                       then [msg_leak] else []);
            d4 = d3 @ (if u ''fissure'' \<in> set detected_classes then [msg_crack] else [])
        in if d4 = [] then [msg_no_specific_issue] else d4)"

section \<open>External calls, exceptions and results\<close>

text \<open>
  Exceptions are values. \<open>str_exn\<close> is \<open>str(e)\<close>, the text that the handlers put into
  their message. Exceptions raised inside OpenCV, the network, the file system or the
  vision client are \<open>LibraryError\<close>.
\<close>

datatype exn =
    ValueError ustring
  | ZeroDivisionError ustring
  | AttributeError ustring
  | LibraryError ustring

fun str_exn :: "exn \<Rightarrow> ustring" where
  "str_exn (ValueError m) = m"
| "str_exn (ZeroDivisionError m) = m"
| "str_exn (AttributeError m) = m"
| "str_exn (LibraryError m) = m"

text \<open>
  Every call that leaves the module is recorded as an event, in the order of the calls:
  decoding a file with \<open>cv2.imread\<close>, the OpenCV contour and colour-mask pipelines,
  inference on the loaded network, reading the bytes of a file, constructing a vision
  client, and the remote label-detection request.
\<close>

datatype event =
    ImRead ustring
  | CvContours
  | CvColorMask
  | NetForward
  | FileRead ustring
  | VisionClientInit
  | LabelDetection

text \<open>
  A computation yields the exception it raised (\<open>Inl\<close>) or its value (\<open>Inr\<close>),
  together with the events it caused. \<open>try_except\<close> is
  \<open>try: ... except Exception as e: ...\<close>.
\<close>

type_synonym 'a run = "(exn + 'a) \<times> event list"

definition ret :: "'a \<Rightarrow> 'a run" where
  "ret x = (Inr x, [])"

definition raise :: "exn \<Rightarrow> 'a run" where
  "raise e = (Inl e, [])"

definition call :: "event \<Rightarrow> exn + 'a \<Rightarrow> 'a run" where
  "call ev outcome = (outcome, [ev])"

definition and_then :: "'a run \<Rightarrow> ('a \<Rightarrow> 'b run) \<Rightarrow> 'b run" where
  "and_then m f =
     (case m of
        (Inl e, t) \<Rightarrow> (Inl e, t)
      | (Inr x, t) \<Rightarrow> (case f x of (r, t') \<Rightarrow> (r, t @ t')))"

definition try_except :: "'a run \<Rightarrow> (exn \<Rightarrow> 'a run) \<Rightarrow> 'a run" where
  "try_except m handler =
     (case m of
        (Inl e, t) \<Rightarrow> (case handler e of (r, t') \<Rightarrow> (r, t @ t'))
      | (Inr x, t) \<Rightarrow> (Inr x, t))"

subsection \<open>Images, network output, service responses\<close>

text \<open>
  An image is an array with a shape; its pixels are only ever handed to OpenCV and to
  the network. A row of the network output carries the class index, the confidence and the
  four normalised box coordinates (columns 1 to 6 of \<open>detections[0, 0, i]\<close>).
\<close>

datatype image = Image (shape: "nat list") (pixels: "nat list")

record detection_row =
  row_class_id :: real
  row_confidence :: real
  row_x1 :: real
  row_y1 :: real
  row_x2 :: real
  row_y2 :: real

datatype net = Net ustring

datatype client = Client

record label_annotation =
  description :: ustring
  score :: real

record response =
  label_annotations :: "label_annotation list"
  error_message :: ustring

text \<open>
  The behaviour of everything outside the module. \<open>cv2_imread\<close> gives \<open>None\<close> for a
  file that it cannot decode. \<open>cv2_contour_areas\<close> is the grey conversion, \<open>Canny\<close>,
  \<open>findContours\<close> and \<open>contourArea\<close> of each contour; \<open>cv2_count_in_range\<close> is the
  HSV conversion, \<open>inRange\<close> and \<open>countNonZero\<close> for one colour range; \<open>net_forward\<close>
  is \<open>blobFromImage\<close>, \<open>setInput\<close> and \<open>forward\<close>, an output of another layout
  than rows of seven columns counting as a raised exception.
\<close>

record world =
  cv2_imread :: "ustring \<Rightarrow> exn + image option"
  cv2_contour_areas :: "image \<Rightarrow> exn + real list"
  cv2_count_in_range :: "image \<Rightarrow> nat list \<Rightarrow> nat list \<Rightarrow> exn + nat"
  net_forward :: "net \<Rightarrow> image \<Rightarrow> exn + detection_row list"
  io_read :: "ustring \<Rightarrow> exn + nat list"
  vision_new_client :: "exn + client"
  vision_label_detection :: "client \<Rightarrow> nat list \<Rightarrow> exn + response"

subsection \<open>Result dictionaries\<close>

record dimensions =
  width :: nat
  height :: nat

record basic_result =
  b_success :: bool
  b_type :: ustring
  b_dimensions :: dimensions
  contours_total :: nat
  contours_significant :: nat
  colors_dominant :: ustring
  colors_distribution :: "(ustring, real) dict"
  b_possible_diagnoses :: "ustring list"

record model_result =
  m_success :: bool
  m_type :: ustring
  m_dimensions :: dimensions
  detections :: "detection list"
  detected_count :: nat
  m_possible_diagnoses :: "ustring list"

text \<open>
  The result of label detection. The engine method fills \<open>sorted_labels\<close> and, when the
  service reported an error message, \<open>warning\<close>; the standalone function has neither key.
\<close>

record label_result =
  l_success :: bool
  l_labels :: "(ustring, real) dict"
  anomalies_detected :: bool
  anomalies :: "anomaly list"
  sorted_labels :: "(ustring \<times> real) list option"
  car_related :: bool
  warning :: "ustring option"

text \<open>\<open>Error msg extra\<close> is \<open>{"error": msg}\<close>, with the key \<open>"message"\<close> when \<open>extra\<close> is given.\<close>

datatype result =
    Error ustring "ustring option"
  | BasicAnalysis basic_result
  | ModelAnalysis model_result
  | LabelAnalysis label_result

fun has_error :: "result \<Rightarrow> bool" where
  "has_error (Error m x) = True"
| "has_error r = False"

fun success :: "result \<Rightarrow> bool" where
  "success (Error m x) = False"
| "success (BasicAnalysis r) = b_success r"
| "success (ModelAnalysis r) = m_success r"
| "success (LabelAnalysis r) = l_success r"

fun result_type :: "result \<Rightarrow> ustring option" where
  "result_type (BasicAnalysis r) = Some (b_type r)"
| "result_type (ModelAnalysis r) = Some (m_type r)"
| "result_type r = None"

section \<open>The recognition engine\<close>

record engine =
  model_path :: ustring
  labels_path :: ustring
  confidence_threshold :: real
  net :: "net option"
  labels :: "int \<rightharpoonup> ustring"
  initialized :: bool
  vision_client :: "client option"
  vision_api_available :: bool

text \<open>
  The record holds the attributes that the constructor sets; \<open>vision_client\<close> is absent
  when the client could not be constructed.
\<close>

subsection \<open>Construction\<close>

text \<open>
  What the constructor reads from its host: the process environment, the file system and
  the model reader of OpenCV, and the conversions \<open>float(s)\<close>, \<open>int(s)\<close> and
  \<open>s.strip()\<close> of the Python runtime. Console output is not modelled.
\<close>

record host =
  getenv :: "ustring \<Rightarrow> ustring option"
  path_exists :: "ustring \<Rightarrow> bool"
  read_net :: "ustring \<Rightarrow> exn + net"
  read_lines :: "ustring \<Rightarrow> exn + ustring list"
  parse_float :: "ustring \<Rightarrow> exn + real"
  parse_int :: "ustring \<Rightarrow> exn + int"
  strip :: "ustring \<Rightarrow> ustring"

text \<open>\<open>line.split(':')[-1]\<close>: what follows the last colon, or the whole line without one.\<close>

definition after_last_colon :: "ustring \<Rightarrow> ustring" where
  "after_last_colon line = rev (takeWhile (\<lambda>c. c \<noteq> 58) (rev line))"

text \<open>\<open>.replace("'", "").replace('"', '')\<close>\<close>

definition remove_quotes :: "ustring \<Rightarrow> ustring" where
  "remove_quotes s = filter (\<lambda>c. c \<noteq> 34) (filter (\<lambda>c. c \<noteq> 39) s)"

text \<open>
  The loop of \<open>_load_labels\<close> over the lines of the label file, with \<open>current_id\<close> and
  the table filled so far as its state. An exception of \<open>int\<close> ends the loop and leaves
  the table as it is at that point.
\<close>

fun load_labels_loop ::
  "host \<Rightarrow> ustring list \<Rightarrow> int option \<Rightarrow> (int \<rightharpoonup> ustring) \<Rightarrow> (int \<rightharpoonup> ustring) \<times> exn option"
where
  "load_labels_loop h [] current_id table = (table, None)"
| "load_labels_loop h (raw # lines) current_id table =
     (let line = strip h raw in
      if sublist (u ''id:'') line then
        (case parse_int h (strip h (after_last_colon line)) of
           Inl ex \<Rightarrow> (table, Some ex)
         | Inr i \<Rightarrow> load_labels_loop h lines (Some i) table)
      else if sublist (u ''name:'') line then
        (let current_name = remove_quotes (strip h (after_last_colon line)) in
         case current_id of
           Some i \<Rightarrow> load_labels_loop h lines None (table(i \<mapsto> current_name))
         | None \<Rightarrow> load_labels_loop h lines None table)
      else load_labels_loop h lines current_id table)"

definition load_labels :: "host \<Rightarrow> ustring \<Rightarrow> (int \<rightharpoonup> ustring) \<times> exn option" where
  "load_labels h path =
     (case read_lines h path of
        Inl ex \<Rightarrow> (Map.empty, Some ex)
      | Inr lines \<Rightarrow> load_labels_loop h lines None Map.empty)"

text \<open>
  The constructor. A threshold in the environment that \<open>float\<close> rejects makes the
  construction itself fail; a failure to read the model or the labels, and a failure to
  construct the vision client, are caught.
\<close>

definition init :: "host \<Rightarrow> world \<Rightarrow> exn + engine" where
  "init h w =
     (let mp = (case getenv h (u ''MODEL_PATH'') of
                  Some v \<Rightarrow> v | None \<Rightarrow> u ''models/detection_model.pb'');
          lp = (case getenv h (u ''LABELS_PATH'') of
                  Some v \<Rightarrow> v | None \<Rightarrow> u ''models/labels.pbtxt'')
      in case (case getenv h (u ''CONFIDENCE_THRESHOLD'') of
                 Some v \<Rightarrow> parse_float h v | None \<Rightarrow> Inr 0.5) of
           Inl ex \<Rightarrow> Inl ex
         | Inr threshold \<Rightarrow>
             let (n, table) =
                   (if path_exists h mp \<and> path_exists h lp then
                      (case read_net h mp of
                         Inl ex \<Rightarrow> (None, Map.empty)
                       | Inr loaded \<Rightarrow> (Some loaded, fst (load_labels h lp)))
                    else (None, Map.empty));
                 (vc, available) =
                   (case vision_new_client w of
                      Inl ex \<Rightarrow> (None, False)
                    | Inr c \<Rightarrow> (Some c, True))
             in Inr \<lparr>model_path = mp,
                     labels_path = lp,
                     confidence_threshold = threshold,
                     net = n,
                     labels = table,
                     initialized = True,
                     vision_client = vc,
                     vision_api_available = available\<rparr>)"

subsection \<open>Basic analysis\<close>

definition unpack_error :: "nat \<Rightarrow> exn" where
  "unpack_error n =
     (if n < 3
      then ValueError (u ''not enough values to unpack (expected 3, got '' @ str_int (int n) @ u '')'')
      else ValueError (u ''too many values to unpack (expected 3)''))"

text \<open>\<open>height, width, _ = image.shape\<close>\<close>

definition unpack_shape :: "image \<Rightarrow> (nat \<times> nat) run" where
  "unpack_shape img =
     (case shape img of
        [h, w, c] \<Rightarrow> ret (h, w)
      | s \<Rightarrow> raise (unpack_error (length s)))"

definition color_ranges :: "(ustring \<times> nat list \<times> nat list) list" where
  "color_ranges =
   [(u ''rouge'', [0, 100, 100], [10, 255, 255]),
    (u ''jaune'', [20, 100, 100], [35, 255, 255]),
    (u ''vert'', [35, 50, 50], [85, 255, 255]),
    (u ''bleu'', [85, 50, 50], [130, 255, 255])]"

text \<open>
  The loop over the colour ranges: one mask count per colour, divided by the number of
  pixels (a division by zero raises) and turned into a percentage.
\<close>

fun color_detection_loop ::
  "world \<Rightarrow> image \<Rightarrow> nat \<Rightarrow> nat \<Rightarrow> (ustring \<times> nat list \<times> nat list) list \<Rightarrow> (ustring, real) dict run"
where
  "color_detection_loop w img h wd [] = ret []"
| "color_detection_loop w img h wd ((color_name, lo, hi) # rest) =
     and_then (call CvColorMask (cv2_count_in_range w img lo hi)) (\<lambda>cnt.
       if h * wd = 0 then raise (ZeroDivisionError (u ''division by zero''))
       else and_then (color_detection_loop w img h wd rest) (\<lambda>d.
         ret ((color_name, real cnt / real (h * wd) * 100) # d)))"

definition msg_basic_1 :: ustring where
  "msg_basic_1 =
     u ''Image analys'' @ [233] @ u ''e avec capacit'' @ [233] @ u ''s basiques uniquement''"

definition msg_basic_2 :: ustring where
  "msg_basic_2 =
     u ''Pour une analyse plus pr'' @ [233] @ u ''cise, veuillez configurer un mod'' @ [232]
       @ u ''le de d'' @ [233] @ u ''tection''"

definition basic_image_analysis :: "world \<Rightarrow> image \<Rightarrow> result run" where
  "basic_image_analysis w img =
     and_then (unpack_shape img) (\<lambda>(h, wd).
     and_then (call CvContours (cv2_contour_areas w img)) (\<lambda>areas.
     let significant_contours = filter (\<lambda>a. a > 500) areas in
     and_then (color_detection_loop w img h wd color_ranges) (\<lambda>color_detection.
     case color_detection of
       [] \<Rightarrow> raise (ValueError (u ''max() arg is an empty sequence''))
     | c # cs \<Rightarrow>
         let dominant_color = max_by snd c cs in
         ret (BasicAnalysis
           \<lparr>b_success = True,
            b_type = u ''basic_analysis'',
            b_dimensions = \<lparr>width = wd, height = h\<rparr>,
            contours_total = length areas,
            contours_significant = length significant_contours,
            colors_dominant =
              (if snd dominant_color > 5 then fst dominant_color
               else u ''ind'' @ [233] @ u ''termin'' @ [233]),
            colors_distribution = color_detection,
            b_possible_diagnoses = [msg_basic_1, msg_basic_2]\<rparr>))))"

subsection \<open>Model-based analysis\<close>

text \<open>
  The body of the loop over the rows of the network output: a row is kept when its
  confidence exceeds the threshold; its class index is looked up in the label table, with
  the placeholder \<open>Classe n\<close> for an unknown index; its box is scaled to pixels.
\<close>

definition make_detection :: "engine \<Rightarrow> nat \<Rightarrow> nat \<Rightarrow> detection_row \<Rightarrow> detection" where
  "make_detection e wd h r =
     (let class_id = py_int (row_class_id r);
          class_name = (case labels e class_id of
                          Some name \<Rightarrow> name
                        | None \<Rightarrow> u ''Classe '' @ str_int class_id)
      in \<lparr>det_class = class_name,
          det_confidence = row_confidence r,
          det_bounding_box =
            \<lparr>x_min = astype_int (row_x1 r * real wd),
             y_min = astype_int (row_y1 r * real h),
             x_max = astype_int (row_x2 r * real wd),
             y_max = astype_int (row_y2 r * real h)\<rparr>\<rparr>)"

fun detection_loop :: "engine \<Rightarrow> nat \<Rightarrow> nat \<Rightarrow> detection_row list \<Rightarrow> detection list" where
  "detection_loop e wd h [] = []"
| "detection_loop e wd h (r # rows) =
     (if row_confidence r > confidence_threshold e
      then make_detection e wd h r # detection_loop e wd h rows
      else detection_loop e wd h rows)"

definition model_based_analysis :: "lower_fn \<Rightarrow> world \<Rightarrow> engine \<Rightarrow> net \<Rightarrow> image \<Rightarrow> result run" where
  "model_based_analysis lower w e n img =
     and_then (unpack_shape img) (\<lambda>(h, wd).
     and_then (call NetForward (net_forward w n img)) (\<lambda>rows.
     let results = detection_loop e wd h rows;
         possible_diagnoses = generate_diagnoses lower results
     in ret (ModelAnalysis
          \<lparr>m_success = True,
           m_type = u ''model_based_analysis'',
           m_dimensions = \<lparr>width = wd, height = h\<rparr>,
           detections = results,
           detected_count = length results,
           m_possible_diagnoses = possible_diagnoses\<rparr>)))"

subsection \<open>\<open>analyze_image\<close>\<close>

definition msg_not_initialized :: ustring where
  "msg_not_initialized =
     u ''Moteur d'analyse d'image non initialis'' @ [233] @ u '' correctement''"

definition msg_cannot_load :: ustring where
  "msg_cannot_load = u ''Impossible de charger l'image: ''"

definition msg_no_image :: ustring where
  "msg_no_image = u ''Aucune image fournie''"

definition msg_analysis_error :: ustring where
  "msg_analysis_error = u ''Erreur lors de l'analyse de l'image: ''"

text \<open>
  The dispatch on the loaded model, after the image has been obtained.
\<close>

definition analyze_loaded :: "lower_fn \<Rightarrow> world \<Rightarrow> engine \<Rightarrow> image \<Rightarrow> result run" where
  "analyze_loaded lower w e img =
     (case net e of
        None \<Rightarrow> basic_image_analysis w img
      | Some n \<Rightarrow> model_based_analysis lower w e n img)"

text \<open>
  \<open>image_path\<close> and \<open>image_array\<close> default to \<open>None\<close>. The test \<open>if image_path\<close> holds
  for a path that is given and not the empty string; \<open>truthy_path\<close> yields that path.
\<close>

definition truthy_path :: "ustring option \<Rightarrow> ustring option" where
  "truthy_path p = (case p of None \<Rightarrow> None | Some s \<Rightarrow> if s = [] then None else Some s)"

definition analyze_image ::
  "lower_fn \<Rightarrow> world \<Rightarrow> engine \<Rightarrow> ustring option \<Rightarrow> image option \<Rightarrow> result run"
where
  "analyze_image lower w e image_path image_array =
     (if \<not> initialized e then ret (Error msg_not_initialized None)
      else
        try_except
          (case truthy_path image_path of
             Some p \<Rightarrow>
               and_then (call (ImRead p) (cv2_imread w p)) (\<lambda>loaded.
                 case loaded of
                   None \<Rightarrow> ret (Error (msg_cannot_load @ p) None)
                 | Some img \<Rightarrow> analyze_loaded lower w e img)
           | None \<Rightarrow>
               (case image_array of
                  Some img \<Rightarrow> analyze_loaded lower w e img
                | None \<Rightarrow> ret (Error msg_no_image None)))
          (\<lambda>ex. ret (Error (msg_analysis_error @ str_exn ex) None)))"

subsection \<open>Label detection through the cloud service\<close>

text \<open>
  The dictionary comprehension over the label annotations of the response: the key is the
  lower-cased description, the value the score.
\<close>

definition label_dict :: "lower_fn \<Rightarrow> label_annotation list \<Rightarrow> (ustring, real) dict" where
  "label_dict lower annotations =
     foldl (\<lambda>d l. dict_set d (lower (description l)) (score l)) [] annotations"

definition msg_vision_unavailable :: ustring where
  "msg_vision_unavailable = u ''API Google Cloud Vision non disponible''"

definition msg_check_credentials :: ustring where
  "msg_check_credentials =
     u ''V'' @ [233] @ u ''rifiez la configuration de vos credentials Google Cloud''"

definition msg_vision_error :: ustring where
  "msg_vision_error = u ''Erreur lors de l'analyse avec Google Cloud Vision: ''"

definition detect_labels :: "lower_fn \<Rightarrow> world \<Rightarrow> engine \<Rightarrow> ustring \<Rightarrow> result run" where
  "detect_labels lower w e image_path =
     (if \<not> vision_api_available e
      then ret (Error msg_vision_unavailable (Some msg_check_credentials))
      else
        try_except
          (and_then (call (FileRead image_path) (io_read w image_path)) (\<lambda>content.
           and_then
             (case vision_client e of
                None \<Rightarrow> raise (AttributeError
                  ([39] @ u ''ImageRecognitionEngine' object has no attribute 'vision_client''
                   @ [39]))
              | Some c \<Rightarrow> call LabelDetection (vision_label_detection w c content)) (\<lambda>resp.
           let label_results = label_dict lower (label_annotations resp);
               anoms = detect_anomalies lower label_results;
               sorted = sorted_desc snd label_results;
               res = \<lparr>l_success = True,
                      l_labels = label_results,
                      anomalies_detected = (length anoms > 0),
                      anomalies = anoms,
                      sorted_labels = Some sorted,
                      car_related = is_car_related lower label_results,
                      warning = None\<rparr>
           in ret (LabelAnalysis
                (if error_message resp \<noteq> []
                 then res\<lparr>warning := Some (u ''API Error: '' @ error_message resp)\<rparr>
                 else res)))))
          (\<lambda>ex. ret (Error (msg_vision_error @ str_exn ex) None)))"

subsection \<open>The standalone function \<open>detect_labels\<close>\<close>

definition standalone_anomaly_keywords :: "ustring list" where
  "standalone_anomaly_keywords =
   [u ''damage'', u ''broken'', u ''crack'', u ''dent'', u ''scratch'', u ''rust'', u ''leak'',
    u ''worn'', u ''bent'', u ''burnt'', u ''accident'', u ''problem'', u ''issue'',
    u ''fault'', u ''dommage'', u ''cass'' @ [233], u ''fissure'', u ''bosse'', u ''rayure'',
    u ''rouille'', u ''fuite'', u ''us'' @ [233], u ''pli'' @ [233],
    u ''br'' @ [251] @ u ''l'' @ [233], u ''accident'', u ''probl'' @ [232] @ u ''me'',
    u ''panne'', u ''d'' @ [233] @ u ''faut'']"

definition standalone_car_keywords :: "ustring list" where
  "standalone_car_keywords =
   [u ''car'', u ''vehicle'', u ''motor'', u ''engine'', u ''wheel'', u ''tire'', u ''brake'',
    u ''transmission'', u ''exhaust'', u ''battery'', u ''headlight'', u ''bumper'',
    u ''voiture'', u ''v'' @ [233] @ u ''hicule'', u ''moteur'', u ''roue'', u ''pneu'',
    u ''frein'', u ''transmission'', [233] @ u ''chappement'', u ''batterie'', u ''phare'',
    u ''pare-choc'']"

text \<open>
  The function constructs its own client on every call; its anomaly list is left in the
  order of the loops.
\<close>

definition standalone_detect_labels :: "lower_fn \<Rightarrow> world \<Rightarrow> ustring \<Rightarrow> result run" where
  "standalone_detect_labels lower w image_path =
     try_except
       (and_then (call VisionClientInit (vision_new_client w)) (\<lambda>c.
        and_then (call (FileRead image_path) (io_read w image_path)) (\<lambda>content.
        and_then (call LabelDetection (vision_label_detection w c content)) (\<lambda>resp.
        let results = label_dict lower (label_annotations resp);
            anoms = anomaly_matches lower standalone_anomaly_keywords results;
            is_car = keyword_hit lower standalone_car_keywords (map fst results)
        in ret (LabelAnalysis
             \<lparr>l_success = True,
              l_labels = results,
              anomalies_detected = (length anoms > 0),
              anomalies = anoms,
              sorted_labels = None,
              car_related = is_car,
              warning = None\<rparr>)))))
       (\<lambda>ex. ret (Error (msg_vision_error @ str_exn ex) None))"

section \<open>Notions used in the properties\<close>

text \<open>
  A keyword is a case-insensitive substring of a label when the lower-cased keyword is a
  substring of the lower-cased label.
\<close>

definition ci_substring :: "lower_fn \<Rightarrow> ustring \<Rightarrow> ustring \<Rightarrow> bool" where
  "ci_substring lower k s = sublist (lower k) (lower s)"

text \<open>
  The two results with which \<open>analyze_image\<close> rejects its input: no image given, and a
  path that \<open>cv2.imread\<close> could not decode. The catch-all handler produces a message
  that starts differently.
\<close>

fun is_input_error :: "result \<Rightarrow> bool" where
  "is_input_error (Error m x) = (m = msg_no_image \<or> prefix msg_cannot_load m)"
| "is_input_error r = False"

text \<open>
  The input of \<open>analyze_image\<close> is missing when there is neither a non-empty path nor an
  array, and undecodable when \<open>cv2.imread\<close> returns \<open>None\<close> for the path.
\<close>

definition input_missing_or_undecodable :: "world \<Rightarrow> ustring option \<Rightarrow> image option \<Rightarrow> bool" where
  "input_missing_or_undecodable w image_path image_array =
     (case truthy_path image_path of
        Some p \<Rightarrow> cv2_imread w p = Inr None
      | None \<Rightarrow> image_array = None)"

section \<open>Sample inputs\<close>

text \<open>
  A world in which \<open>car.jpg\<close> decodes to a 100 by 100 colour image that is entirely red,
  the network reports three rows, and the vision service answers with three labels, two of
  which differ only by case.
\<close>

definition sample_path :: ustring where
  "sample_path = u ''car.jpg''"

definition sample_image :: image where
  "sample_image = Image [100, 100, 3] []"

definition sample_gray_image :: image where
  "sample_gray_image = Image [100, 100] []"

definition sample_rows :: "detection_row list" where
  "sample_rows =
   [\<lparr>row_class_id = 1, row_confidence = 0.9,
     row_x1 = 0.1, row_y1 = 0.2, row_x2 = 0.5, row_y2 = 0.6\<rparr>,
    \<lparr>row_class_id = 2, row_confidence = 0.5,
     row_x1 = 0, row_y1 = 0, row_x2 = 1, row_y2 = 1\<rparr>,
    \<lparr>row_class_id = 7, row_confidence = 0.3,
     row_x1 = 0, row_y1 = 0, row_x2 = 1, row_y2 = 1\<rparr>]"

definition sample_annotations :: "label_annotation list" where
  "sample_annotations =
   [\<lparr>description = u ''Rusty Car'', score = 0.8\<rparr>,
    \<lparr>description = u ''Wheel'', score = 0.7\<rparr>,
    \<lparr>description = u ''rusty car'', score = 0.6\<rparr>]"

definition sample_response :: response where
  "sample_response = \<lparr>label_annotations = sample_annotations, error_message = []\<rparr>"

definition sample_world :: world where
  "sample_world =
   \<lparr>cv2_imread = (\<lambda>p. if p = sample_path then Inr (Some sample_image) else Inr None),
    cv2_contour_areas = (\<lambda>img. Inr [600, 20]),
    cv2_count_in_range = (\<lambda>img lo hi. Inr (if lo = [0, 100, 100] then 10000 else 0)),
    net_forward = (\<lambda>n img. Inr sample_rows),
    io_read = (\<lambda>p. if p = sample_path then Inr [255, 216, 255]
                    else Inl (LibraryError (u ''No such file or directory''))),
    vision_new_client = Inr Client,
    vision_label_detection = (\<lambda>c content. Inr sample_response)\<rparr>"

definition sample_engine_basic :: engine where
  "sample_engine_basic =
   \<lparr>model_path = u ''models/detection_model.pb'',
    labels_path = u ''models/labels.pbtxt'',
    confidence_threshold = 0.5,
    net = None,
    labels = Map.empty,
    initialized = True,
    vision_client = None,
    vision_api_available = False\<rparr>"

definition sample_engine_model :: engine where
  "sample_engine_model =
   \<lparr>model_path = u ''models/detection_model.pb'',
    labels_path = u ''models/labels.pbtxt'',
    confidence_threshold = 0.5,
    net = Some (Net (u ''models/detection_model.pb'')),
    labels = [1 \<mapsto> u ''Frein avant''],
    initialized = True,
    vision_client = Some Client,
    vision_api_available = True\<rparr>"

definition sample_detection :: detection where
  "sample_detection =
   \<lparr>det_class = u ''Frein avant'', det_confidence = 0.9,
    det_bounding_box = \<lparr>x_min = 10, y_min = 20, x_max = 50, y_max = 60\<rparr>\<rparr>"

definition sample_brake_detection :: detection where
  "sample_brake_detection =
   \<lparr>det_class = u ''brake'', det_confidence = 0.9,
    det_bounding_box = \<lparr>x_min = 10, y_min = 20, x_max = 50, y_max = 60\<rparr>\<rparr>"

definition sample_model_result :: model_result where
  "sample_model_result =
   \<lparr>m_success = True, m_type = u ''model_based_analysis'',
    m_dimensions = \<lparr>width = 100, height = 100\<rparr>,
    detections = [sample_detection], detected_count = 1,
    m_possible_diagnoses = [msg_brake_advice]\<rparr>"

definition sample_basic_result :: basic_result where
  "sample_basic_result =
   \<lparr>b_success = True, b_type = u ''basic_analysis'',
    b_dimensions = \<lparr>width = 100, height = 100\<rparr>,
    contours_total = 2, contours_significant = 1,
    colors_dominant = u ''rouge'',
    colors_distribution = [(u ''rouge'', 100), (u ''jaune'', 0), (u ''vert'', 0), (u ''bleu'', 0)],
    b_possible_diagnoses = [msg_basic_1, msg_basic_2]\<rparr>"

definition sample_labels :: "(ustring, real) dict" where
  "sample_labels = [(u ''rusty car'', 0.6), (u ''wheel'', 0.7)]"

definition sample_anomalies :: "anomaly list" where
  "sample_anomalies =
   [\<lparr>anomaly_type = u ''rust'', anomaly_label = u ''rusty car'', anomaly_score = 0.6\<rparr>,
    \<lparr>anomaly_type = u ''rusty'', anomaly_label = u ''rusty car'', anomaly_score = 0.6\<rparr>]"

definition sample_label_result :: label_result where
  "sample_label_result =
   \<lparr>l_success = True, l_labels = sample_labels,
    anomalies_detected = True, anomalies = sample_anomalies,
    sorted_labels = Some [(u ''wheel'', 0.7), (u ''rusty car'', 0.6)],
    car_related = True, warning = None\<rparr>"

definition sample_standalone_result :: label_result where
  "sample_standalone_result =
   \<lparr>l_success = True, l_labels = sample_labels,
    anomalies_detected = True,
    anomalies = [\<lparr>anomaly_type = u ''rust'', anomaly_label = u ''rusty car'', anomaly_score = 0.6\<rparr>],
    sorted_labels = None,
    car_related = True, warning = None\<rparr>"

text \<open>The label dictionary of the example in the specification of \<open>detect_anomalies\<close>.\<close>

definition workshop_labels :: "(ustring, real) dict" where
  "workshop_labels = [(u ''rusty bolt'', 0.4), (u ''cracked glass'', 0.9)]"

section \<open>Auxiliary facts\<close>

subsection \<open>Strings and keyword tables\<close>

lemmas str_eval = u_def latin1_lower_def latin1_lower_cp_def sublist_code(3)

lemma latin1_lower_is_lower_on_latin1: "lower_on_latin1 latin1_lower"
  by (simp add: lower_on_latin1_def)

lemma lower_latin1_eq:
  assumes "lower_on_latin1 lower" "list_all (\<lambda>c. c < 256) s"
  shows "lower s = latin1_lower s"
  using assms unfolding lower_on_latin1_def list_all_iff by blast

lemma lower_fixed:
  assumes "lower_on_latin1 lower" "list_all (\<lambda>c. c < 256) k" "latin1_lower k = k"
  shows "lower k = k"
  using lower_latin1_eq[OF assms(1,2)] assms(3) by simp

lemma car_keywords_latin1:
  "list_all (\<lambda>k. list_all (\<lambda>c. c < 256) k \<and> latin1_lower k = k) car_keywords"
  by (simp add: car_keywords_def str_eval)

lemma anomaly_keywords_latin1:
  "list_all (\<lambda>k. list_all (\<lambda>c. c < 256) k \<and> latin1_lower k = k) anomaly_keywords"
  by (simp add: anomaly_keywords_def str_eval)

lemma car_keywords_lower:
  "lower_on_latin1 lower \<Longrightarrow> k \<in> set car_keywords \<Longrightarrow> lower k = k"
  using car_keywords_latin1 lower_fixed unfolding list_all_iff by blast

lemma anomaly_keywords_lower:
  "lower_on_latin1 lower \<Longrightarrow> k \<in> set anomaly_keywords \<Longrightarrow> lower k = k"
  using anomaly_keywords_latin1 lower_fixed unfolding list_all_iff by blast

lemma is_car_related_cong:
  "(\<And>l. l \<in> fst ` set label_map \<Longrightarrow> lower l = lower' l) \<Longrightarrow>
     is_car_related lower label_map = is_car_related lower' label_map"
  by (auto simp: is_car_related_def keyword_hit_def list_ex_iff)

subsection \<open>Sorting and the anomaly loops\<close>

lemma sorted_desc_sorted: "sorted_wrt (\<lambda>a b. key a \<ge> key b) (sorted_desc key xs)"
proof -
  have "sorted (map (\<lambda>x. - key x) (sort_key (\<lambda>x. - key x) xs))"
    by (rule sorted_sort_key)
  then show ?thesis
    by (simp add: sorted_desc_def sorted_map)
qed

lemma mset_sorted_desc: "mset (sorted_desc key xs) = mset xs"
  by (simp add: sorted_desc_def)

lemma mset_keyword_matches:
  "mset (keyword_matches lower label_map k) =
     image_mset (\<lambda>(k, l, s). \<lparr>anomaly_type = k, anomaly_label = l, anomaly_score = s\<rparr>)
       (filter_mset (\<lambda>(k, l, s). sublist k (lower l)) (mset (map (Pair k) label_map)))"
  unfolding keyword_matches_def by (induction label_map) auto

lemma mset_anomaly_matches:
  "mset (anomaly_matches lower kws label_map) =
     image_mset (\<lambda>(k, l, s). \<lparr>anomaly_type = k, anomaly_label = l, anomaly_score = s\<rparr>)
       (filter_mset (\<lambda>(k, l, s). sublist k (lower l)) (mset (List.product kws label_map)))"
  by (induction kws) (simp_all add: anomaly_matches_def mset_keyword_matches)

lemma filter_single_key:
  "distinct (map fst label_map) \<Longrightarrow> (l, s) \<in> set label_map \<Longrightarrow>
     filter (\<lambda>(l', s'). l' = l) label_map = [(l, s)]"
proof (induction label_map)
  case Nil
  then show ?case by simp
next
  case (Cons x xs)
  then show ?case by (cases x) (force simp: filter_empty_conv)
qed

lemma length_filter_keyword_matches:
  assumes "distinct (map fst label_map)" "(l, s) \<in> set label_map"
  shows "length (filter (\<lambda>a. anomaly_label a = l) (keyword_matches lower label_map k)) =
         (if sublist k (lower l) then 1 else 0)"
proof -
  have "filter (\<lambda>a. anomaly_label a = l) (keyword_matches lower label_map k) =
        keyword_matches lower (filter (\<lambda>(l', s'). l' = l) label_map) k"
    unfolding keyword_matches_def by (induction label_map) auto
  then show ?thesis
    by (simp add: filter_single_key[OF assms] keyword_matches_def)
qed

lemma length_filter_label_matches:
  assumes "distinct (map fst label_map)" "(l, s) \<in> set label_map"
  shows "length (filter (\<lambda>a. anomaly_label a = l) (anomaly_matches lower kws label_map)) =
         length (filter (\<lambda>k. sublist k (lower l)) kws)"
  by (induction kws)
     (simp_all add: anomaly_matches_def length_filter_keyword_matches[OF assms])

subsection \<open>The label dictionary\<close>

lemma map_of_dict_set: "map_of (dict_set d k v) = (map_of d)(k \<mapsto> v)"
  by (induction d k v rule: dict_set.induct) (auto simp: fun_eq_iff)

lemma keys_dict_set: "fst ` set (dict_set d k v) = insert k (fst ` set d)"
  by (induction d k v rule: dict_set.induct) auto

lemma distinct_dict_set: "distinct (map fst d) \<Longrightarrow> distinct (map fst (dict_set d k v))"
proof (induction d k v rule: dict_set.induct)
  case (1 k v)
  show ?case by simp
next
  case (2 k' v' d k v)
  then show ?case using keys_dict_set[of d k v] by auto
qed

lemma label_dict_snoc:
  "label_dict lower (anns @ [l]) =
     dict_set (label_dict lower anns) (lower (description l)) (score l)"
  by (simp add: label_dict_def)

lemma keys_label_dict:
  "fst ` set (label_dict lower anns) = (\<lambda>l. lower (description l)) ` set anns"
proof (induction anns rule: rev_induct)
  case Nil
  show ?case by (simp add: label_dict_def)
next
  case (snoc x xs)
  then show ?case by (simp add: label_dict_snoc keys_dict_set)
qed

lemma distinct_label_dict: "distinct (map fst (label_dict lower anns))"
proof (induction anns rule: rev_induct)
  case Nil
  show ?case by (simp add: label_dict_def)
next
  case (snoc x xs)
  then show ?case by (simp only: label_dict_snoc distinct_dict_set)
qed

lemma dict_get_label_dict_append:
  "dict_get (label_dict lower (pre @ post)) k =
     (case dict_get (label_dict lower post) k of
        Some v \<Rightarrow> Some v
      | None \<Rightarrow> dict_get (label_dict lower pre) k)"
  by (induction post rule: rev_induct)
     (auto simp: dict_get_def label_dict_snoc map_of_dict_set label_dict_def
           simp flip: append_assoc split: option.splits)

subsection \<open>Computations with events\<close>

lemma fst_ret [simp]: "fst (ret x) = Inr x"
  by (simp add: ret_def)

lemma snd_ret [simp]: "snd (ret x) = []"
  by (simp add: ret_def)

lemma fst_raise [simp]: "fst (raise e) = Inl e"
  by (simp add: raise_def)

lemma snd_raise [simp]: "snd (raise e) = []"
  by (simp add: raise_def)

lemma fst_call [simp]: "fst (call ev out) = out"
  by (simp add: call_def)

lemma snd_call [simp]: "snd (call ev out) = [ev]"
  by (simp add: call_def)

lemma fst_and_then:
  "fst (and_then m f) = (case fst m of Inl e \<Rightarrow> Inl e | Inr x \<Rightarrow> fst (f x))"
  by (auto simp: and_then_def split: prod.splits sum.splits)

lemma snd_and_then:
  "snd (and_then m f) = (case fst m of Inl e \<Rightarrow> snd m | Inr x \<Rightarrow> snd m @ snd (f x))"
  by (auto simp: and_then_def split: prod.splits sum.splits)

lemma fst_try_except_ret:
  "fst (try_except m (\<lambda>ex. ret (h ex))) =
     (case fst m of Inl ex \<Rightarrow> Inr (h ex) | Inr x \<Rightarrow> Inr x)"
  by (auto simp: try_except_def ret_def split: prod.splits sum.splits)

lemma snd_try_except_ret: "snd (try_except m (\<lambda>ex. ret (h ex))) = snd m"
  by (auto simp: try_except_def ret_def split: prod.splits sum.splits)

lemma try_except_total: "\<exists>r. fst (try_except m (\<lambda>ex. ret (h ex))) = Inr r"
  by (cases "fst m") (auto simp: fst_try_except_ret)

subsection \<open>The two analysers\<close>

lemma detection_loop_confidence:
  "d \<in> set (detection_loop e wd h rows) \<Longrightarrow> confidence_threshold e < det_confidence d"
  by (induction rows) (auto simp: make_detection_def Let_def split: if_splits)

lemma unpack_shape_events [simp]: "snd (unpack_shape img) = []"
  by (auto simp: unpack_shape_def split: list.splits)

lemma color_loop_events:
  "set (snd (color_detection_loop w img h wd rs)) \<subseteq> {CvContours, CvColorMask}"
proof (induction rs)
  case Nil
  show ?case by simp
next
  case (Cons r rs)
  obtain nm lo hi where r: "r = (nm, lo, hi)" by (cases r)
  show ?case unfolding r color_detection_loop.simps
    using Cons by (auto simp: snd_and_then split: sum.splits)
qed

lemma basic_events: "set (snd (basic_image_analysis w img)) \<subseteq> {CvContours, CvColorMask}"
  unfolding basic_image_analysis_def Let_def
  by (auto simp: snd_and_then split: sum.splits list.splits prod.splits
           dest: subsetD[OF color_loop_events])

lemma basic_result:
  "fst (basic_image_analysis w img) = Inr r \<Longrightarrow>
     \<exists>b. r = BasicAnalysis b \<and> b_success b \<and> b_type b = u ''basic_analysis''"
  unfolding basic_image_analysis_def
  by (auto simp: fst_and_then Let_def split: sum.splits list.splits)

lemma model_result:
  "fst (model_based_analysis lower w e n img) = Inr r \<Longrightarrow>
     \<exists>m. r = ModelAnalysis m \<and> m_success m \<and>
         (\<forall>d\<in>set (detections m). confidence_threshold e < det_confidence d)"
  unfolding model_based_analysis_def
  by (auto simp: fst_and_then Let_def detection_loop_confidence split: sum.splits)

lemma analyze_loaded_result:
  "fst (analyze_loaded lower w e img) = Inr r \<Longrightarrow>
     (net e = None \<and> (\<exists>b. r = BasicAnalysis b \<and> b_success b \<and> b_type b = u ''basic_analysis'')) \<or>
     (net e \<noteq> None \<and> (\<exists>m. r = ModelAnalysis m \<and> m_success m \<and>
         (\<forall>d\<in>set (detections m). confidence_threshold e < det_confidence d)))"
  unfolding analyze_loaded_def
  by (auto split: option.splits dest: basic_result model_result)

lemma analyze_loaded_events_basic:
  "net e = None \<Longrightarrow> set (snd (analyze_loaded lower w e img)) \<subseteq> {CvContours, CvColorMask}"
  by (simp add: analyze_loaded_def basic_events)

lemma analyze_loaded_not_input_error:
  "fst (analyze_loaded lower w e img) = Inr r \<Longrightarrow> \<not> is_input_error r"
  by (auto dest!: analyze_loaded_result)

subsection \<open>Outcomes of the public operations\<close>

lemma analyze_image_cases:
  assumes "fst (analyze_image lower w e image_path image_array) = Inr r"
  shows "r = Error msg_not_initialized None
       \<or> (\<exists>ex. r = Error (msg_analysis_error @ str_exn ex) None)
       \<or> (\<exists>p. r = Error (msg_cannot_load @ p) None)
       \<or> r = Error msg_no_image None
       \<or> (\<exists>img. fst (analyze_loaded lower w e img) = Inr r)"
  using assms unfolding analyze_image_def
  by (auto simp: fst_try_except_ret fst_and_then split: if_splits sum.splits option.splits)

lemma analyze_image_total:
  "\<exists>r. fst (analyze_image lower w e image_path image_array) = Inr r"
  unfolding analyze_image_def
  by (cases "initialized e") (simp_all add: try_except_total)

lemma detect_labels_cases:
  "fst (detect_labels lower w e image_path) = Inr r \<Longrightarrow>
     (\<exists>m x. r = Error m x) \<or>
     (\<exists>l. r = LabelAnalysis l \<and> l_success l \<and> anomalies_detected l = (anomalies l \<noteq> []))"
  unfolding detect_labels_def
  by (auto simp: fst_try_except_ret fst_and_then Let_def
           split: if_splits sum.splits option.splits)

lemma standalone_detect_labels_cases:
  "fst (standalone_detect_labels lower w image_path) = Inr r \<Longrightarrow>
     (\<exists>m x. r = Error m x) \<or>
     (\<exists>l. r = LabelAnalysis l \<and> l_success l \<and> anomalies_detected l = (anomalies l \<noteq> []))"
  unfolding standalone_detect_labels_def
  by (auto simp: fst_try_except_ret fst_and_then Let_def
           split: if_splits sum.splits option.splits)

lemma detect_labels_total: "\<exists>r. fst (detect_labels lower w e image_path) = Inr r"
  unfolding detect_labels_def
  by (cases "vision_api_available e") (simp_all add: try_except_total)

lemma standalone_detect_labels_total:
  "\<exists>r. fst (standalone_detect_labels lower w image_path) = Inr r"
  unfolding standalone_detect_labels_def by (simp add: try_except_total)

lemma msg_heads:
  "msg_analysis_error @ s \<noteq> msg_no_image"
  "\<not> prefix msg_cannot_load (msg_analysis_error @ s)"
  by (simp_all add: msg_analysis_error_def msg_no_image_def msg_cannot_load_def u_def)

subsection \<open>What the constructor establishes\<close>

text \<open>
  A constructed engine is initialised; its availability flag says whether the vision
  client could be constructed, and the client is present when the flag is set; without
  both model files there is no network.
\<close>

lemma init_initialized: "init h w = Inr e \<Longrightarrow> initialized e"
  by (auto simp: init_def Let_def split: sum.splits option.splits if_splits prod.splits)

lemma init_vision_flag:
  "init h w = Inr e \<Longrightarrow>
     (vision_api_available e \<longleftrightarrow> (\<exists>c. vision_new_client w = Inr c)) \<and>
     (vision_api_available e \<longrightarrow> vision_client e \<noteq> None)"
  by (auto simp: init_def Let_def split: sum.splits option.splits if_splits prod.splits)

lemma init_without_model_files:
  "init h w = Inr e \<Longrightarrow> \<not> (path_exists h (model_path e) \<and> path_exists h (labels_path e)) \<Longrightarrow>
     net e = None"
  by (auto simp: init_def Let_def split: sum.splits option.splits if_splits prod.splits)

subsection \<open>The sample inputs, evaluated\<close>

lemmas run_eval = ret_def raise_def call_def and_then_def try_except_def

lemma sample_path_nonempty: "sample_path \<noteq> []"
  by (simp add: sample_path_def u_def)

lemma sample_detections:
  "detection_loop sample_engine_model 100 100 sample_rows = [sample_detection]"
  by (simp add: sample_rows_def sample_engine_model_def sample_detection_def
        make_detection_def py_int_def astype_int_def)

lemma sample_diagnoses: "generate_diagnoses latin1_lower [sample_detection] = [msg_brake_advice]"
  by (simp add: generate_diagnoses_def sample_detection_def component_diagnoses_def str_eval)

lemma sample_model_eval:
  "analyze_image latin1_lower sample_world sample_engine_model None (Some sample_image) =
     (Inr (ModelAnalysis sample_model_result), [NetForward])"
proof -
  have "model_based_analysis latin1_lower sample_world sample_engine_model
          (Net (u ''models/detection_model.pb'')) sample_image
        = (Inr (ModelAnalysis sample_model_result), [NetForward])"
    by (simp add: model_based_analysis_def unpack_shape_def sample_image_def sample_world_def
          run_eval sample_detections sample_diagnoses sample_model_result_def)
  then show ?thesis
    by (simp add: analyze_image_def analyze_loaded_def truthy_path_def run_eval
          sample_engine_model_def)
qed

lemma sample_color_loop:
  "color_detection_loop sample_world sample_image 100 100 color_ranges =
     (Inr [(u ''rouge'', 100), (u ''jaune'', 0), (u ''vert'', 0), (u ''bleu'', 0)],
      [CvColorMask, CvColorMask, CvColorMask, CvColorMask])"
  by (simp add: color_ranges_def sample_world_def run_eval)

lemma sample_basic_analysis:
  "basic_image_analysis sample_world sample_image =
     (Inr (BasicAnalysis sample_basic_result),
      [CvContours, CvColorMask, CvColorMask, CvColorMask, CvColorMask])"
proof -
  have sh: "shape sample_image = [100, 100, 3]"
    by (simp add: sample_image_def)
  have ar: "cv2_contour_areas sample_world sample_image = Inr [600, 20]"
    by (simp add: sample_world_def)
  show ?thesis
    by (simp add: basic_image_analysis_def unpack_shape_def sh ar sample_color_loop run_eval
          sample_basic_result_def u_def)
qed

lemma sample_basic_eval:
  "analyze_image latin1_lower sample_world sample_engine_basic (Some sample_path) None =
     (Inr (BasicAnalysis sample_basic_result),
      [ImRead sample_path, CvContours, CvColorMask, CvColorMask, CvColorMask, CvColorMask])"
proof -
  have "cv2_imread sample_world sample_path = Inr (Some sample_image)"
    by (simp add: sample_world_def)
  then show ?thesis
    using sample_basic_analysis sample_path_nonempty
    by (simp add: analyze_image_def analyze_loaded_def truthy_path_def run_eval
          sample_engine_basic_def)
qed

lemma sample_no_image_eval:
  "analyze_image latin1_lower sample_world sample_engine_basic None None =
     (Inr (Error msg_no_image None), [])"
  by (simp add: analyze_image_def truthy_path_def run_eval sample_engine_basic_def)

lemma sample_label_dict: "label_dict latin1_lower sample_annotations = sample_labels"
  by (simp add: label_dict_def sample_annotations_def sample_labels_def str_eval)

lemma sample_detect_anomalies: "detect_anomalies latin1_lower sample_labels = sample_anomalies"
  by (simp add: detect_anomalies_def anomaly_matches_def keyword_matches_def
        anomaly_keywords_def sorted_desc_def sample_labels_def sample_anomalies_def str_eval)

lemma sample_is_car_related: "is_car_related latin1_lower sample_labels"
  by (simp add: is_car_related_def keyword_hit_def car_keywords_def sample_labels_def str_eval)

lemma sample_detect_labels_eval:
  "detect_labels latin1_lower sample_world sample_engine_model sample_path =
     (Inr (LabelAnalysis sample_label_result), [FileRead sample_path, LabelDetection])"
proof -
  have rd: "io_read sample_world sample_path = Inr [255, 216, 255]"
    by (simp add: sample_world_def)
  have ld: "vision_label_detection sample_world Client [255, 216, 255] = Inr sample_response"
    by (simp add: sample_world_def)
  have so: "sorted_desc snd sample_labels = [(u ''wheel'', 0.7), (u ''rusty car'', 0.6)]"
    by (simp add: sorted_desc_def sample_labels_def)
  have e: "vision_api_available sample_engine_model" "vision_client sample_engine_model = Some Client"
    by (simp_all add: sample_engine_model_def)
  show ?thesis
    by (simp add: detect_labels_def e rd ld run_eval sample_response_def sample_label_dict
          sample_detect_anomalies sample_is_car_related so sample_label_result_def
          sample_anomalies_def)
qed

lemma sample_standalone_eval:
  "standalone_detect_labels latin1_lower sample_world sample_path =
     (Inr (LabelAnalysis sample_standalone_result),
      [VisionClientInit, FileRead sample_path, LabelDetection])"
proof -
  have rd: "io_read sample_world sample_path = Inr [255, 216, 255]"
    by (simp add: sample_world_def)
  have ld: "vision_label_detection sample_world Client [255, 216, 255] = Inr sample_response"
    by (simp add: sample_world_def)
  have nc: "vision_new_client sample_world = Inr Client"
    by (simp add: sample_world_def)
  have an: "anomaly_matches latin1_lower standalone_anomaly_keywords sample_labels =
              [\<lparr>anomaly_type = u ''rust'', anomaly_label = u ''rusty car'', anomaly_score = 0.6\<rparr>]"
    by (simp add: anomaly_matches_def keyword_matches_def standalone_anomaly_keywords_def
          sample_labels_def str_eval)
  have car: "keyword_hit latin1_lower standalone_car_keywords (map fst sample_labels)"
    by (simp add: keyword_hit_def standalone_car_keywords_def sample_labels_def str_eval)
  show ?thesis
    by (simp add: standalone_detect_labels_def nc rd ld run_eval sample_response_def
          sample_label_dict an car sample_standalone_result_def)
qed

section \<open>Properties of the specification\<close>

subsection \<open>Model path: the confidence threshold\<close>

text \<open>
  Claim C1. Whatever the threshold \<open>t\<close> of the engine and whatever the network puts
  out, a model-based result of \<open>analyze_image\<close> lists only detections whose confidence is
  strictly greater than \<open>t\<close>: no detection with a confidence of at most \<open>t\<close> is in the
  list.
\<close>

theorem analyze_image_detections_above_threshold:
  assumes "fst (analyze_image lower w e image_path image_array) = Inr (ModelAnalysis r)"
      and "d \<in> set (detections r)"
  shows "confidence_threshold e < det_confidence d \<and>
         \<not> det_confidence d \<le> confidence_threshold e"
  using analyze_image_cases[OF assms(1)] assms(2)
  by (auto dest!: analyze_loaded_result)

theorem analyze_image_detections_above_threshold_witness:
  "fst (analyze_image latin1_lower sample_world sample_engine_model None (Some sample_image))
     = Inr (ModelAnalysis sample_model_result) \<and>
   sample_detection \<in> set (detections sample_model_result) \<and>
   confidence_threshold sample_engine_model < det_confidence sample_detection \<and>
   \<not> det_confidence sample_detection \<le> confidence_threshold sample_engine_model"
proof -
  have h1: "fst (analyze_image latin1_lower sample_world sample_engine_model None
                  (Some sample_image)) = Inr (ModelAnalysis sample_model_result)"
    by (simp add: sample_model_eval)
  have h2: "sample_detection \<in> set (detections sample_model_result)"
    by (simp add: sample_model_result_def)
  show ?thesis
    using h1 h2 analyze_image_detections_above_threshold[OF h1 h2] by simp
qed

subsection \<open>Car-relatedness\<close>

text \<open>
  Claim C2. For every label map, \<open>_is_car_related\<close> returns true if and only if some
  keyword of the fixed car-keyword list is a case-insensitive substring of some key of
  the map. In particular it returns true on \<open>{"car door": 0.9}\<close> and false on
  \<open>{"flower": 0.8}\<close>.
\<close>

theorem is_car_related_iff_keyword_substring:
  assumes "lower_on_latin1 lower"
  shows "(is_car_related lower label_map \<longleftrightarrow>
            (\<exists>k\<in>set car_keywords. \<exists>l\<in>set (map fst label_map). ci_substring lower k l)) \<and>
         is_car_related lower [(u ''car door'', 0.9)] \<and>
         \<not> is_car_related lower [(u ''flower'', 0.8)]"
proof (intro conjI)
  show "is_car_related lower label_map \<longleftrightarrow>
          (\<exists>k\<in>set car_keywords. \<exists>l\<in>set (map fst label_map). ci_substring lower k l)"
    by (auto simp: is_car_related_def keyword_hit_def list_ex_iff ci_substring_def
          car_keywords_lower[OF assms])
  have door: "lower (u ''car door'') = latin1_lower (u ''car door'')"
    by (rule lower_latin1_eq[OF assms]) (simp add: u_def)
  have "is_car_related latin1_lower [(u ''car door'', 0.9)]"
    by (simp add: is_car_related_def keyword_hit_def car_keywords_def str_eval)
  then show "is_car_related lower [(u ''car door'', 0.9)]"
    using is_car_related_cong[of "[(u ''car door'', 0.9)]" lower latin1_lower] door by simp
  have flower: "lower (u ''flower'') = latin1_lower (u ''flower'')"
    by (rule lower_latin1_eq[OF assms]) (simp add: u_def)
  have "\<not> is_car_related latin1_lower [(u ''flower'', 0.8)]"
    by (simp add: is_car_related_def keyword_hit_def car_keywords_def str_eval)
  then show "\<not> is_car_related lower [(u ''flower'', 0.8)]"
    using is_car_related_cong[of "[(u ''flower'', 0.8)]" lower latin1_lower] flower by simp
qed

theorem is_car_related_iff_keyword_substring_witness:
  "lower_on_latin1 latin1_lower \<and>
   is_car_related latin1_lower [(u ''Car Door'', 0.9)] \<and>
   (\<exists>k\<in>set car_keywords. \<exists>l\<in>set (map fst [(u ''Car Door'', 0.9 :: real)]).
      ci_substring latin1_lower k l) \<and>
   is_car_related latin1_lower [(u ''car door'', 0.9)] \<and>
   \<not> is_car_related latin1_lower [(u ''flower'', 0.8)]"
proof -
  have h: "lower_on_latin1 latin1_lower"
    by (rule latin1_lower_is_lower_on_latin1)
  have e: "is_car_related latin1_lower [(u ''Car Door'', 0.9)]"
    by (simp add: is_car_related_def keyword_hit_def car_keywords_def str_eval)
  show ?thesis
    using h e is_car_related_iff_keyword_substring[OF h, of "[(u ''Car Door'', 0.9)]"]
    by blast
qed

subsection \<open>Anomalies\<close>

text \<open>
  Claim C3. For every label map, the list returned by \<open>_detect_anomalies\<close> is sorted in
  descending order of score; it holds one entry for every pair of an entry of the keyword
  list and an item of the map such that the keyword is a case-insensitive substring of the
  label; and it is not de-duplicated: for a label of the map, the number of entries that
  carry it is the number of entries of the keyword list that match it, so several keywords
  matching one label give one entry each.
\<close>

theorem detect_anomalies_sorted_all_matches:
  assumes "lower_on_latin1 lower"
  shows "sorted_wrt (\<lambda>a b. anomaly_score a \<ge> anomaly_score b) (detect_anomalies lower label_map) \<and>
     mset (detect_anomalies lower label_map) =
       image_mset (\<lambda>(k, l, s). \<lparr>anomaly_type = k, anomaly_label = l, anomaly_score = s\<rparr>)
         (filter_mset (\<lambda>(k, l, s). ci_substring lower k l)
            (mset (List.product anomaly_keywords label_map))) \<and>
     (distinct (map fst label_map) \<longrightarrow> (\<forall>(l, s) \<in> set label_map.
        length (filter (\<lambda>a. anomaly_label a = l) (detect_anomalies lower label_map)) =
        length (filter (\<lambda>k. ci_substring lower k l) anomaly_keywords)))"
proof (intro conjI)
  show "sorted_wrt (\<lambda>a b. anomaly_score a \<ge> anomaly_score b) (detect_anomalies lower label_map)"
    by (simp add: detect_anomalies_def sorted_desc_sorted)
  have eq: "filter_mset (\<lambda>(k, l, s). ci_substring lower k l)
              (mset (List.product anomaly_keywords label_map))
          = filter_mset (\<lambda>(k, l, s). sublist k (lower l))
              (mset (List.product anomaly_keywords label_map))"
    by (rule filter_mset_cong) (auto simp: ci_substring_def anomaly_keywords_lower[OF assms])
  show "mset (detect_anomalies lower label_map) =
         image_mset (\<lambda>(k, l, s). \<lparr>anomaly_type = k, anomaly_label = l, anomaly_score = s\<rparr>)
           (filter_mset (\<lambda>(k, l, s). ci_substring lower k l)
              (mset (List.product anomaly_keywords label_map)))"
    by (simp only: eq detect_anomalies_def mset_sorted_desc mset_anomaly_matches)
  have feq: "filter (\<lambda>k. ci_substring lower k l) anomaly_keywords =
             filter (\<lambda>k. sublist k (lower l)) anomaly_keywords" for l
    by (rule filter_cong) (auto simp: ci_substring_def anomaly_keywords_lower[OF assms])
  show "distinct (map fst label_map) \<longrightarrow> (\<forall>(l, s) \<in> set label_map.
           length (filter (\<lambda>a. anomaly_label a = l) (detect_anomalies lower label_map)) =
           length (filter (\<lambda>k. ci_substring lower k l) anomaly_keywords))"
    by (auto simp: detect_anomalies_def sorted_desc_def filter_sort feq
          length_filter_label_matches)
qed

text \<open>
  The example of the specification: \<open>cracked glass\<close> is matched by \<open>crack\<close> and by
  \<open>cracked\<close>, \<open>rusty bolt\<close> by \<open>rust\<close> and by \<open>rusty\<close>, and the entries of the higher
  score come first.
\<close>

theorem detect_anomalies_sorted_all_matches_witness:
  "lower_on_latin1 latin1_lower \<and>
   distinct (map fst workshop_labels) \<and>
   (u ''cracked glass'', 0.9) \<in> set workshop_labels \<and>
   detect_anomalies latin1_lower workshop_labels =
     [\<lparr>anomaly_type = u ''crack'', anomaly_label = u ''cracked glass'', anomaly_score = 0.9\<rparr>,
      \<lparr>anomaly_type = u ''cracked'', anomaly_label = u ''cracked glass'', anomaly_score = 0.9\<rparr>,
      \<lparr>anomaly_type = u ''rust'', anomaly_label = u ''rusty bolt'', anomaly_score = 0.4\<rparr>,
      \<lparr>anomaly_type = u ''rusty'', anomaly_label = u ''rusty bolt'', anomaly_score = 0.4\<rparr>] \<and>
   sorted_wrt (\<lambda>a b. anomaly_score a \<ge> anomaly_score b)
     (detect_anomalies latin1_lower workshop_labels) \<and>
   length (filter (\<lambda>a. anomaly_label a = u ''cracked glass'')
             (detect_anomalies latin1_lower workshop_labels)) =
   length (filter (\<lambda>k. ci_substring latin1_lower k (u ''cracked glass'')) anomaly_keywords)"
proof -
  have h: "lower_on_latin1 latin1_lower"
    by (rule latin1_lower_is_lower_on_latin1)
  have d: "distinct (map fst workshop_labels)"
    by (simp add: workshop_labels_def u_def)
  have m: "(u ''cracked glass'', 0.9) \<in> set workshop_labels"
    by (simp add: workshop_labels_def)
  have ev: "detect_anomalies latin1_lower workshop_labels =
     [\<lparr>anomaly_type = u ''crack'', anomaly_label = u ''cracked glass'', anomaly_score = 0.9\<rparr>,
      \<lparr>anomaly_type = u ''cracked'', anomaly_label = u ''cracked glass'', anomaly_score = 0.9\<rparr>,
      \<lparr>anomaly_type = u ''rust'', anomaly_label = u ''rusty bolt'', anomaly_score = 0.4\<rparr>,
      \<lparr>anomaly_type = u ''rusty'', anomaly_label = u ''rusty bolt'', anomaly_score = 0.4\<rparr>]"
    by (simp add: detect_anomalies_def anomaly_matches_def keyword_matches_def
          anomaly_keywords_def sorted_desc_def workshop_labels_def str_eval)
  from detect_anomalies_sorted_all_matches[OF h, of workshop_labels] d m
  have "sorted_wrt (\<lambda>a b. anomaly_score a \<ge> anomaly_score b)
          (detect_anomalies latin1_lower workshop_labels)"
    and "length (filter (\<lambda>a. anomaly_label a = u ''cracked glass'')
             (detect_anomalies latin1_lower workshop_labels)) =
         length (filter (\<lambda>k. ci_substring latin1_lower k (u ''cracked glass'')) anomaly_keywords)"
    by blast+
  with h d m ev show ?thesis by blast
qed

text \<open>
  The keyword list itself has repeated entries (\<open>corrosion\<close>, \<open>accident\<close> and
  \<open>collision\<close> stand in its English and in its French part), so a label that contains
  one of them is reported once for each occurrence.
\<close>

lemma detect_anomalies_repeated_keyword:
  "detect_anomalies latin1_lower [(u ''corrosion'', 0.4)] =
     [\<lparr>anomaly_type = u ''corrosion'', anomaly_label = u ''corrosion'', anomaly_score = 0.4\<rparr>,
      \<lparr>anomaly_type = u ''corrosion'', anomaly_label = u ''corrosion'', anomaly_score = 0.4\<rparr>]"
  by (simp add: detect_anomalies_def anomaly_matches_def keyword_matches_def
        anomaly_keywords_def sorted_desc_def str_eval)

subsection \<open>Diagnoses\<close>

text \<open>
  Claim C4, as the function behaves. \<open>_generate_diagnoses\<close> applied to an empty
  detection list returns exactly one message, the "nothing recognized" message; applied
  to a detection list containing a detection whose lower-cased class contains \<open>frein\<close>,
  it returns a list that includes the advice to inspect brake pads and discs. The table
  of components is keyed by the French words.
\<close>

theorem generate_diagnoses_empty_and_frein:
  "generate_diagnoses lower [] = [msg_nothing_recognized] \<and>
   ((\<exists>d\<in>set ds. sublist (u ''frein'') (lower (det_class d))) \<longrightarrow>
      msg_brake_advice \<in> set (generate_diagnoses lower ds))"
proof
  show "generate_diagnoses lower [] = [msg_nothing_recognized]"
    by (simp add: generate_diagnoses_def)
  show "(\<exists>d\<in>set ds. sublist (u ''frein'') (lower (det_class d))) \<longrightarrow>
      msg_brake_advice \<in> set (generate_diagnoses lower ds)"
  proof
    assume h: "\<exists>d\<in>set ds. sublist (u ''frein'') (lower (det_class d))"
    then have ne: "ds \<noteq> []" by auto
    from h have hit: "list_ex (\<lambda>cls. sublist (u ''frein'') cls) (map (\<lambda>d. lower (det_class d)) ds)"
      by (auto simp: list_ex_iff)
    define d1 where "d1 = map snd (filter (\<lambda>(component, diagnosis).
        list_ex (\<lambda>cls. sublist component cls) (map (\<lambda>d. lower (det_class d)) ds))
        component_diagnoses)"
    have mem: "msg_brake_advice \<in> set d1"
      using hit by (simp add: d1_def component_diagnoses_def)
    then have ne1: "d1 \<noteq> []" by auto
    have "\<exists>rest. generate_diagnoses lower ds = d1 @ rest"
      using ne ne1 by (simp add: generate_diagnoses_def Let_def d1_def)
    then show "msg_brake_advice \<in> set (generate_diagnoses lower ds)"
      using mem by auto
  qed
qed

theorem generate_diagnoses_empty_and_frein_witness:
  "generate_diagnoses latin1_lower [] = [msg_nothing_recognized] \<and>
   (\<exists>d\<in>set [sample_detection]. sublist (u ''frein'') (latin1_lower (det_class d))) \<and>
   msg_brake_advice \<in> set (generate_diagnoses latin1_lower [sample_detection])"
proof -
  have h: "\<exists>d\<in>set [sample_detection]. sublist (u ''frein'') (latin1_lower (det_class d))"
    by (simp add: sample_detection_def str_eval)
  show ?thesis
    using h generate_diagnoses_empty_and_frein[of latin1_lower "[sample_detection]"]
    by blast
qed

text \<open>
  A detection of class \<open>brake\<close> matches no entry of the table: the only message is the
  generic one, and the brake advice is not given.
\<close>

theorem generate_diagnoses_brake_counterexample:
  "generate_diagnoses latin1_lower [sample_brake_detection] = [msg_no_specific_issue] \<and>
   msg_brake_advice \<notin> set (generate_diagnoses latin1_lower [sample_brake_detection])"
  by (simp add: generate_diagnoses_def component_diagnoses_def sample_brake_detection_def
        msg_brake_advice_def msg_no_specific_issue_def str_eval)

subsection \<open>Label detection without a vision client\<close>

text \<open>
  Claim C5. When the vision client could not be constructed, so that the availability
  flag of the engine is false, every call of the method \<open>detect_labels\<close> returns the
  result with the error field for the unavailable service, and causes no event: no file
  is read and no request is sent.
\<close>

theorem detect_labels_unavailable_no_calls:
  assumes "\<not> vision_api_available e"
  shows "fst (detect_labels lower w e image_path) =
           Inr (Error msg_vision_unavailable (Some msg_check_credentials)) \<and>
         snd (detect_labels lower w e image_path) = []"
  using assms by (simp add: detect_labels_def)

theorem detect_labels_unavailable_no_calls_witness:
  "\<not> vision_api_available sample_engine_basic \<and>
   fst (detect_labels latin1_lower sample_world sample_engine_basic sample_path) =
     Inr (Error msg_vision_unavailable (Some msg_check_credentials)) \<and>
   snd (detect_labels latin1_lower sample_world sample_engine_basic sample_path) = []"
proof -
  have h: "\<not> vision_api_available sample_engine_basic"
    by (simp add: sample_engine_basic_def)
  show ?thesis
    using h detect_labels_unavailable_no_calls[OF h, of latin1_lower sample_world sample_path]
    by simp
qed

subsection \<open>Analysis without a model\<close>

text \<open>
  Claim C6. When no model is loaded (the network handle of the engine is absent), every
  successful call of \<open>analyze_image\<close> returns a result whose type is \<open>basic_analysis\<close>,
  and no call runs inference on a network.
\<close>

theorem analyze_image_without_model_is_basic:
  assumes "net e = None"
  shows "NetForward \<notin> set (snd (analyze_image lower w e image_path image_array)) \<and>
         (\<forall>r. fst (analyze_image lower w e image_path image_array) = Inr r \<and> success r \<longrightarrow>
              result_type r = Some (u ''basic_analysis''))"
proof
  have "set (snd (analyze_image lower w e image_path image_array))
          \<subseteq> range ImRead \<union> {CvContours, CvColorMask}"
    unfolding analyze_image_def
    using analyze_loaded_events_basic[OF assms]
    by (auto simp: snd_try_except_ret snd_and_then split: option.splits sum.splits)
  then show "NetForward \<notin> set (snd (analyze_image lower w e image_path image_array))"
    by auto
  show "\<forall>r. fst (analyze_image lower w e image_path image_array) = Inr r \<and> success r \<longrightarrow>
              result_type r = Some (u ''basic_analysis'')"
    using assms by (auto dest!: analyze_image_cases analyze_loaded_result)
qed

theorem analyze_image_without_model_is_basic_witness:
  "net sample_engine_basic = None \<and>
   fst (analyze_image latin1_lower sample_world sample_engine_basic (Some sample_path) None) =
     Inr (BasicAnalysis sample_basic_result) \<and>
   success (BasicAnalysis sample_basic_result) \<and>
   result_type (BasicAnalysis sample_basic_result) = Some (u ''basic_analysis'') \<and>
   NetForward \<notin> set (snd (analyze_image latin1_lower sample_world sample_engine_basic
                             (Some sample_path) None))"
proof -
  have h: "net sample_engine_basic = None"
    by (simp add: sample_engine_basic_def)
  have ev: "fst (analyze_image latin1_lower sample_world sample_engine_basic
                   (Some sample_path) None) = Inr (BasicAnalysis sample_basic_result)"
    by (simp add: sample_basic_eval)
  have su: "success (BasicAnalysis sample_basic_result)"
    by (simp add: sample_basic_result_def)
  show ?thesis
    using h ev su
      analyze_image_without_model_is_basic[OF h, of latin1_lower sample_world
        "Some sample_path" None]
    by blast
qed

subsection \<open>Rejected input\<close>

text \<open>
  Claim C7. On a constructed engine, \<open>analyze_image\<close> returns one of its two input-error
  results exactly when neither a path nor an in-memory image is supplied, or when the
  supplied path cannot be decoded into an image; in those cases nothing is analysed: the
  only event, if any, is the attempt to read the file. (A path counts as supplied when it
  passes the test \<open>if image_path\<close>. The results of the catch-all handler are not
  input errors.)
\<close>

theorem analyze_image_input_error_iff:
  assumes "initialized e"
  shows "\<exists>r. fst (analyze_image lower w e image_path image_array) = Inr r \<and>
           (is_input_error r \<longleftrightarrow> input_missing_or_undecodable w image_path image_array) \<and>
           (input_missing_or_undecodable w image_path image_array \<longrightarrow>
              set (snd (analyze_image lower w e image_path image_array)) \<subseteq> range ImRead)"
proof (cases "truthy_path image_path")
  case None
  show ?thesis
  proof (cases image_array)
    case N: None
    show ?thesis using assms None N
      by (simp add: analyze_image_def fst_try_except_ret snd_try_except_ret
            input_missing_or_undecodable_def)
  next
    case (Some img)
    show ?thesis using assms None Some
      by (cases "fst (analyze_loaded lower w e img)")
         (auto simp: analyze_image_def fst_try_except_ret snd_try_except_ret
               input_missing_or_undecodable_def msg_heads
               dest: analyze_loaded_not_input_error)
  qed
next
  case (Some p)
  show ?thesis
  proof (cases "cv2_imread w p")
    case (Inl ex)
    then show ?thesis using assms Some
      by (simp add: analyze_image_def fst_try_except_ret snd_try_except_ret fst_and_then
            snd_and_then input_missing_or_undecodable_def msg_heads)
  next
    case (Inr loaded)
    show ?thesis
    proof (cases loaded)
      case None
      then show ?thesis using assms Some Inr
        by (simp add: analyze_image_def fst_try_except_ret snd_try_except_ret fst_and_then
              snd_and_then input_missing_or_undecodable_def)
    next
      case S: (Some img)
      then show ?thesis using assms Some Inr
        by (cases "fst (analyze_loaded lower w e img)")
           (auto simp: analyze_image_def fst_try_except_ret snd_try_except_ret fst_and_then
                 snd_and_then input_missing_or_undecodable_def msg_heads
                 dest: analyze_loaded_not_input_error)
    qed
  qed
qed

theorem analyze_image_input_error_iff_witness:
  "initialized sample_engine_basic \<and>
   fst (analyze_image latin1_lower sample_world sample_engine_basic None None) =
     Inr (Error msg_no_image None) \<and>
   is_input_error (Error msg_no_image None) \<and>
   input_missing_or_undecodable sample_world None None \<and>
   set (snd (analyze_image latin1_lower sample_world sample_engine_basic None None))
     \<subseteq> range ImRead"
proof -
  have h: "initialized sample_engine_basic"
    by (simp add: sample_engine_basic_def)
  have ev: "fst (analyze_image latin1_lower sample_world sample_engine_basic None None) =
              Inr (Error msg_no_image None)"
    by (simp add: sample_no_image_eval)
  have ie: "is_input_error (Error msg_no_image None)"
    by simp
  show ?thesis
    using h ev ie
      analyze_image_input_error_iff[OF h, of latin1_lower sample_world None None]
    by auto
qed

text \<open>
  The two input-error results, with the texts that the caller receives, against a result of
  the catch-all handler; and the result for a path that cannot be decoded.
\<close>

lemma input_error_texts:
  "is_input_error (Error (u ''Aucune image fournie'') None) \<and>
   is_input_error (Error (u ''Impossible de charger l'image: missing.jpg'') None) \<and>
   \<not> is_input_error (Error (u ''Erreur lors de l'analyse de l'image: division by zero'') None)"
  by (simp add: msg_no_image_def msg_cannot_load_def u_def)

lemma analyze_image_undecodable_path:
  "analyze_image latin1_lower sample_world sample_engine_basic (Some (u ''missing.jpg'')) None =
     (Inr (Error (u ''Impossible de charger l'image: missing.jpg'') None),
      [ImRead (u ''missing.jpg'')]) \<and>
   input_missing_or_undecodable sample_world (Some (u ''missing.jpg'')) None"
proof -
  have rd: "cv2_imread sample_world (u ''missing.jpg'') = Inr None"
    by (simp add: sample_world_def sample_path_def u_def)
  have tp: "truthy_path (Some (u ''missing.jpg'')) = Some (u ''missing.jpg'')"
    by (simp add: truthy_path_def u_def)
  have ms: "msg_cannot_load @ u ''missing.jpg'' = u ''Impossible de charger l'image: missing.jpg''"
    by (simp add: msg_cannot_load_def u_def)
  show ?thesis
    by (simp add: analyze_image_def tp rd ms run_eval sample_engine_basic_def
          input_missing_or_undecodable_def)
qed

text \<open>
  An array of two dimensions is an image that is supplied, and its analysis fails when
  the shape is unpacked: the result comes from the catch-all handler and is not an input
  error.
\<close>

lemma analyze_image_gray_array:
  "analyze_image latin1_lower sample_world sample_engine_basic None (Some sample_gray_image) =
     (Inr (Error (msg_analysis_error @ u ''not enough values to unpack (expected 3, got 2)'')
             None), []) \<and>
   \<not> is_input_error
       (Error (msg_analysis_error @ u ''not enough values to unpack (expected 3, got 2)'') None) \<and>
   \<not> input_missing_or_undecodable sample_world None (Some sample_gray_image)"
  by (simp add: analyze_image_def analyze_loaded_def truthy_path_def run_eval
        sample_engine_basic_def basic_image_analysis_def unpack_shape_def sample_gray_image_def
        unpack_error_def str_int_def digits.simps u_def msg_analysis_error_def msg_no_image_def
        msg_cannot_load_def input_missing_or_undecodable_def)

subsection \<open>No exception leaves a public operation\<close>

text \<open>
  Claim C8. For every input and every behaviour of the libraries, each public operation
  (\<open>analyze_image\<close>, the method \<open>detect_labels\<close> and the function \<open>detect_labels\<close>)
  returns a result, which either carries the error field or is a successful result with
  data; no exception is passed on to the caller. The engine is not changed by a call.
\<close>

theorem public_operations_return_results:
  "(\<exists>r. fst (analyze_image lower w e image_path image_array) = Inr r \<and>
        (has_error r \<noteq> success r)) \<and>
   (\<exists>r. fst (detect_labels lower w e path) = Inr r \<and> (has_error r \<noteq> success r)) \<and>
   (\<exists>r. fst (standalone_detect_labels lower w path) = Inr r \<and> (has_error r \<noteq> success r))"
proof (intro conjI)
  obtain r where r: "fst (analyze_image lower w e image_path image_array) = Inr r"
    using analyze_image_total by blast
  from analyze_image_cases[OF r] have "has_error r \<noteq> success r"
    by (auto dest!: analyze_loaded_result)
  with r show "\<exists>r. fst (analyze_image lower w e image_path image_array) = Inr r \<and>
        (has_error r \<noteq> success r)" by blast
  obtain r' where r': "fst (detect_labels lower w e path) = Inr r'"
    using detect_labels_total by blast
  from detect_labels_cases[OF r'] have "has_error r' \<noteq> success r'"
    by auto
  with r' show "\<exists>r. fst (detect_labels lower w e path) = Inr r \<and> (has_error r \<noteq> success r)"
    by blast
  obtain r'' where r'': "fst (standalone_detect_labels lower w path) = Inr r''"
    using standalone_detect_labels_total by blast
  from standalone_detect_labels_cases[OF r''] have "has_error r'' \<noteq> success r''"
    by auto
  with r'' show "\<exists>r. fst (standalone_detect_labels lower w path) = Inr r \<and>
        (has_error r \<noteq> success r)" by blast
qed

text \<open>
  In the sample world the file \<open>missing.jpg\<close> cannot be read: the exception of the
  library ends as an error result of both label detections.
\<close>

theorem public_operations_return_results_witness:
  "(\<exists>r. fst (analyze_image latin1_lower sample_world sample_engine_model None
             (Some sample_image)) = Inr r \<and> (has_error r \<noteq> success r)) \<and>
   (\<exists>r. fst (detect_labels latin1_lower sample_world sample_engine_model (u ''missing.jpg''))
           = Inr r \<and> (has_error r \<noteq> success r)) \<and>
   (\<exists>r. fst (standalone_detect_labels latin1_lower sample_world (u ''missing.jpg''))
           = Inr r \<and> (has_error r \<noteq> success r))"
  using public_operations_return_results[of latin1_lower sample_world sample_engine_model
          None "Some sample_image" "u ''missing.jpg''"]
  by simp

lemma detect_labels_missing_file:
  "detect_labels latin1_lower sample_world sample_engine_model (u ''missing.jpg'') =
     (Inr (Error (msg_vision_error @ u ''No such file or directory'') None),
      [FileRead (u ''missing.jpg'')])"
proof -
  have rd: "io_read sample_world (u ''missing.jpg'') =
              Inl (LibraryError (u ''No such file or directory''))"
    by (simp add: sample_world_def sample_path_def u_def)
  have e: "vision_api_available sample_engine_model"
    by (simp add: sample_engine_model_def)
  show ?thesis
    by (simp add: detect_labels_def e rd run_eval)
qed

subsection \<open>The label dictionary\<close>

text \<open>
  Claim C9. In the label dictionary built from the response of the service, every key is
  the lower-cased description of an entry, and every entry gives a key; when several
  entries have descriptions that are equal after lower-casing, the score kept is that of
  the last of them in the response list.
\<close>

theorem label_dict_lowercase_last_wins:
  "set (map fst (label_dict lower anns)) = (\<lambda>l. lower (description l)) ` set anns \<and>
   distinct (map fst (label_dict lower anns)) \<and>
   (anns = pre @ l # post \<and> (\<forall>l'\<in>set post. lower (description l') \<noteq> lower (description l))
      \<longrightarrow> dict_get (label_dict lower anns) (lower (description l)) = Some (score l))"
proof (intro conjI impI)
  show "set (map fst (label_dict lower anns)) = (\<lambda>l. lower (description l)) ` set anns"
    by (simp add: keys_label_dict)
  show "distinct (map fst (label_dict lower anns))"
    by (rule distinct_label_dict)
  assume a: "anns = pre @ l # post \<and>
             (\<forall>l'\<in>set post. lower (description l') \<noteq> lower (description l))"
  then have "lower (description l) \<notin> fst ` set (label_dict lower post)"
    unfolding keys_label_dict by auto
  then have none: "dict_get (label_dict lower post) (lower (description l)) = None"
    by (simp add: dict_get_def map_of_eq_None_iff)
  have here: "dict_get (label_dict lower (pre @ [l])) (lower (description l)) = Some (score l)"
    by (simp add: label_dict_snoc dict_get_def map_of_dict_set)
  have "dict_get (label_dict lower ((pre @ [l]) @ post)) (lower (description l)) = Some (score l)"
    unfolding dict_get_label_dict_append[of lower "pre @ [l]" post] none here by simp
  then show "dict_get (label_dict lower anns) (lower (description l)) = Some (score l)"
    using a by simp
qed

text \<open>
  In the sample response \<open>Rusty Car\<close> (0.8) comes before \<open>rusty car\<close> (0.6), with
  \<open>Wheel\<close> between them: the key \<open>rusty car\<close> keeps its first place and has the score
  0.6.
\<close>

theorem label_dict_lowercase_last_wins_witness:
  "sample_annotations =
     [\<lparr>description = u ''Rusty Car'', score = 0.8\<rparr>, \<lparr>description = u ''Wheel'', score = 0.7\<rparr>]
       @ \<lparr>description = u ''rusty car'', score = 0.6\<rparr> # [] \<and>
   label_dict latin1_lower sample_annotations = [(u ''rusty car'', 0.6), (u ''wheel'', 0.7)] \<and>
   dict_get (label_dict latin1_lower sample_annotations) (u ''rusty car'') = Some 0.6"
proof -
  have a: "sample_annotations =
     [\<lparr>description = u ''Rusty Car'', score = 0.8\<rparr>, \<lparr>description = u ''Wheel'', score = 0.7\<rparr>]
       @ \<lparr>description = u ''rusty car'', score = 0.6\<rparr> # []"
    by (simp add: sample_annotations_def)
  have lw: "latin1_lower (u ''rusty car'') = u ''rusty car''"
    by (simp add: str_eval)
  have "dict_get (label_dict latin1_lower sample_annotations)
          (latin1_lower (description \<lparr>description = u ''rusty car'', score = 0.6\<rparr>)) =
        Some (score \<lparr>description = u ''rusty car'', score = 0.6 :: real\<rparr>)"
    using a label_dict_lowercase_last_wins[of latin1_lower sample_annotations
        "[\<lparr>description = u ''Rusty Car'', score = 0.8\<rparr>, \<lparr>description = u ''Wheel'', score = 0.7\<rparr>]"
        "\<lparr>description = u ''rusty car'', score = 0.6\<rparr>" "[]"]
    by simp
  then have g: "dict_get (label_dict latin1_lower sample_annotations) (u ''rusty car'') = Some 0.6"
    by (simp add: lw)
  show ?thesis
    using a g sample_label_dict by (simp add: sample_labels_def)
qed

subsection \<open>The anomaly flag\<close>

text \<open>
  Claim C10. In every successful result of label detection, from the method of the
  engine and from the standalone function alike, the field \<open>anomalies_detected\<close> is
  true if and only if the list \<open>anomalies\<close> of the same result is not empty.
\<close>

theorem anomalies_detected_iff_nonempty:
  "(fst (detect_labels lower w e path) = Inr (LabelAnalysis r1) \<longrightarrow>
      (anomalies_detected r1 \<longleftrightarrow> anomalies r1 \<noteq> [])) \<and>
   (fst (standalone_detect_labels lower w path) = Inr (LabelAnalysis r2) \<longrightarrow>
      (anomalies_detected r2 \<longleftrightarrow> anomalies r2 \<noteq> []))"
  by (auto dest!: detect_labels_cases standalone_detect_labels_cases)

theorem anomalies_detected_iff_nonempty_witness:
  "fst (detect_labels latin1_lower sample_world sample_engine_model sample_path) =
     Inr (LabelAnalysis sample_label_result) \<and>
   fst (standalone_detect_labels latin1_lower sample_world sample_path) =
     Inr (LabelAnalysis sample_standalone_result) \<and>
   (anomalies_detected sample_label_result \<longleftrightarrow> anomalies sample_label_result \<noteq> []) \<and>
   (anomalies_detected sample_standalone_result \<longleftrightarrow> anomalies sample_standalone_result \<noteq> [])"
proof -
  have h1: "fst (detect_labels latin1_lower sample_world sample_engine_model sample_path) =
              Inr (LabelAnalysis sample_label_result)"
    by (simp add: sample_detect_labels_eval)
  have h2: "fst (standalone_detect_labels latin1_lower sample_world sample_path) =
              Inr (LabelAnalysis sample_standalone_result)"
    by (simp add: sample_standalone_eval)
  show ?thesis
    using h1 h2
      anomalies_detected_iff_nonempty[of latin1_lower sample_world sample_engine_model
        sample_path sample_label_result sample_standalone_result]
    by blast
qed

end
